theory Spec2Isabelle
  imports Main
begin

section \<open>The persisted relations (backend/app.py, lines 46-113)\<close>

text \<open>
  The four SQLAlchemy models become records, one field per column. A table is the list of
  its rows in rowid order, so that appending a row is appending to the list. Timestamps
  (\<open>datetime.utcnow()\<close>) are natural numbers, microseconds on the clock; primary keys are
  integers, as the identifiers of a JSON request body are.
\<close>

record user_session =
  us_id :: int
  us_session_id :: string
  us_encrypted_api_key :: string
  us_created_at :: nat
  us_last_used :: nat

record chat =
  c_id :: int
  c_prompt_id :: int
  c_session_id :: string
  c_created_at :: nat

record message =
  m_id :: int
  m_chat_id :: int
  m_role :: string
  m_content :: string
  m_created_at :: nat

record prompt =
  p_id :: int
  p_title :: string
  p_content :: string
  p_created_at :: nat
  p_updated_at :: nat
  p_category :: string

record db =
  user_sessions :: "user_session list"
  prompts :: "prompt list"
  chats :: "chat list"
  messages :: "message list"

definition empty_db :: db where
  "empty_db = \<lparr>user_sessions = [], prompts = [], chats = [], messages = []\<rparr>"

text \<open>
  An \<open>INTEGER PRIMARY KEY\<close> column of SQLite without \<open>AUTOINCREMENT\<close> receives one more
  than the largest key in the table, and 1 in an empty table (as long as the largest key
  is below the largest 64-bit integer, which the handlers, counting up from 1, do not
  reach).
\<close>

definition next_id :: "int list \<Rightarrow> int" where
  "next_id ids = fold max ids 0 + 1"

text \<open>
  An integer that Python hands to SQLite as a parameter must fit its signed 64-bit
  \<open>INTEGER\<close>; binding any other raises \<open>OverflowError\<close>, which no handler catches.
\<close>

datatype error = OverflowError

definition sqlite_integer :: "int \<Rightarrow> bool" where
  "sqlite_integer n \<longleftrightarrow> - (2 ^ 63) \<le> n \<and> n < 2 ^ 63"

section \<open>The external collaborators\<close>

text \<open>
  \<open>cipher_suite\<close> is the Fernet object of line 27. \<open>fernet_encrypt\<close> stands for
  \<open>cipher_suite.encrypt(s.encode()).decode()\<close> and \<open>fernet_decrypt\<close> for
  \<open>cipher_suite.decrypt(s.encode()).decode()\<close>, which raises on a token that the key did
  not produce (\<open>None\<close> here).
\<close>

record cipher_suite =
  fernet_encrypt :: "string \<Rightarrow> string"
  fernet_decrypt :: "string \<Rightarrow> string option"

text \<open>
  The response of \<open>generate_content(prompt, stream=True)\<close> is a finite lazy sequence of
  chunks, each with its \<open>text\<close>, that the provider ends or breaks off with an exception.
\<close>

datatype chunk_stream =
    StreamEnd
  | Chunk string chunk_stream
  | StreamError string

text \<open>
  \<open>genai\<close> is the provider module after \<open>genai.configure(api_key=k)\<close>: both calls take the
  configured key and the prompt. The plain call returns the text or raises (\<open>Inl\<close> the
  text of the exception).
\<close>

record genai =
  generate_content :: "string \<Rightarrow> string \<Rightarrow> string + string"
  generate_content_stream :: "string \<Rightarrow> string \<Rightarrow> chunk_stream"

section \<open>Responses\<close>

text \<open>\<open>jsonify(d), status\<close>: the entries of the dictionary and the status code.\<close>

type_synonym json_response = "(string \<times> string) list \<times> nat"

section \<open>Session store: \<open>update_api_key\<close> and \<open>get_api_key_from_session\<close>\<close>

text \<open>
  \<open>update_api_key\<close> (lines 171-204). \<open>token\<close> is the value of
  \<open>secrets.token_urlsafe(32)\<close>, \<open>t_created\<close> and \<open>t_used\<close> the two clock readings of
  the column defaults, \<open>api_key\<close> the field \<open>api_key\<close> of the JSON body (\<open>None\<close> when
  the body has no such field). Every exception inside \<open>try\<close> ends in the \<open>except\<close>
  branch: status 400, nothing committed. \<open>integrity_error\<close> is \<open>str(e)\<close> for the
  \<open>IntegrityError\<close> that \<open>db.session.commit()\<close> raises when the \<open>unique=True\<close> column
  \<open>session_id\<close> already holds the token: SQLAlchemy's text, with the statement and its
  parameters, taken as it comes.
\<close>

definition update_api_key ::
  "cipher_suite \<Rightarrow> genai \<Rightarrow> string \<Rightarrow> string \<Rightarrow> nat \<Rightarrow> nat \<Rightarrow> string option \<Rightarrow> db
     \<Rightarrow> json_response \<times> db" where
  "update_api_key cs g integrity_error token t_created t_used api_key d =
     (case api_key of
        None \<Rightarrow> (([(''error'', ''API key is required'')], 400), d)
      | Some new_key \<Rightarrow>
          if new_key = [] then (([(''error'', ''API key is required'')], 400), d)
          else
            (case generate_content g new_key ''test'' of
               Inl e \<Rightarrow> (([(''error'', e)], 400), d)
             | Inr _ \<Rightarrow>
                 let session_id = token;
                     encrypted_key = fernet_encrypt cs new_key;
                     session = \<lparr>us_id = next_id (map us_id (user_sessions d)),
                                us_session_id = session_id,
                                us_encrypted_api_key = encrypted_key,
                                us_created_at = t_created,
                                us_last_used = t_used\<rparr>
                 in if session_id \<in> set (map us_session_id (user_sessions d))
                    then (([(''error'', integrity_error)], 400), d)
                    else (([(''message'', ''API key saved successfully''),
                            (''session_id'', session_id)], 200),
                          d\<lparr>user_sessions := user_sessions d @ [session]\<rparr>)))"

text \<open>
  \<open>get_api_key_from_session\<close> (lines 206-222). The row is the first one with the token;
  \<open>last_used\<close> is written and committed (an \<open>UPDATE\<close> of the row with that primary key)
  before the ciphertext is decrypted, and a failed decryption returns \<open>None\<close> through the
  bare \<open>except\<close>.
\<close>

definition get_api_key_from_session ::
  "cipher_suite \<Rightarrow> nat \<Rightarrow> string option \<Rightarrow> db \<Rightarrow> string option \<times> db" where
  "get_api_key_from_session cs now session_id d =
     (case session_id of
        None \<Rightarrow> (None, d)
      | Some sid \<Rightarrow>
          if sid = [] then (None, d)
          else
            (case find (\<lambda>s. us_session_id s = sid) (user_sessions d) of
               None \<Rightarrow> (None, d)
             | Some session \<Rightarrow>
                 let d' = d\<lparr>user_sessions :=
                             map (\<lambda>s. if us_id s = us_id session
                                       then s\<lparr>us_last_used := now\<rparr> else s)
                                 (user_sessions d)\<rparr>
                 in (fernet_decrypt cs (us_encrypted_api_key session), d')))"

section \<open>Stream orchestrator: \<open>stream_chat\<close> and its generator\<close>

text \<open>
  The request: the header \<open>X-Session-ID\<close> and the fields of the JSON body, each \<open>None\<close>
  when absent. The model covers bodies whose \<open>prompt\<close> and \<open>message\<close> are strings and
  whose identifiers are integers.
\<close>

record chat_request =
  x_session_id :: "string option"
  rq_prompt :: "string option"
  rq_message :: "string option"
  rq_prompt_id :: "int option"
  rq_chat_id :: "int option"

text \<open>The clock readings of one call of \<open>stream_chat\<close>, in the order they are taken.\<close>

record chat_clock =
  at_last_used :: nat
  at_chat_created :: nat
  at_user_message :: nat

text \<open>
  What the nested function \<open>generate\<close> closes over: the model configured with the key,
  \<open>full_prompt\<close> and \<open>chat\<close>.
\<close>

record generator =
  g_api_key :: string
  g_full_prompt :: string
  g_chat :: "chat option"

text \<open>
  What \<open>stream_chat\<close> answers: \<open>jsonify(d), status\<close>, the streaming \<open>Response\<close> around
  the generator, or the status 500 that Flask gives an exception no handler caught.
\<close>

datatype chat_response =
    JsonResponse "(string \<times> string) list" nat
  | EventStream generator
  | InternalServerError error

text \<open>\<open>data.get(key, '')\<close> and Python's truth value of an integer or \<open>None\<close>.\<close>

definition get_str :: "string option \<Rightarrow> string" where
  "get_str v = (case v of None \<Rightarrow> [] | Some s \<Rightarrow> s)"

definition truthy :: "int option \<Rightarrow> bool" where
  "truthy v = (case v of None \<Rightarrow> False | Some n \<Rightarrow> n \<noteq> 0)"

text \<open>Line 244.\<close>

definition full_prompt :: "string \<Rightarrow> string \<Rightarrow> string" where
  "full_prompt prompt_text user_input =
     (if prompt_text \<noteq> [] then prompt_text @ [CHR 0x0A, CHR 0x0A] @ ''User: '' @ user_input
      else user_input)"

text \<open>
  \<open>Chat.query.get(chat_id)\<close>: the row with that primary key, if any. The key is bound
  as a parameter of the \<open>SELECT\<close>.
\<close>

definition chat_query_get :: "int \<Rightarrow> db \<Rightarrow> error + chat option" where
  "chat_query_get cid d =
     (if sqlite_integer cid then Inr (find (\<lambda>c. c_id c = cid) (chats d))
      else Inl OverflowError)"

text \<open>
  \<open>db.session.add(Chat(...)); db.session.commit()\<close>. SQLite does not enforce the foreign
  keys here, so the \<open>INSERT\<close> fails only when \<open>prompt_id\<close> cannot be bound, and then
  nothing is stored.
\<close>

definition add_chat :: "nat \<Rightarrow> int \<Rightarrow> string \<Rightarrow> db \<Rightarrow> error + chat \<times> db" where
  "add_chat now pid sid d =
     (if sqlite_integer pid
      then (let c = \<lparr>c_id = next_id (map c_id (chats d)), c_prompt_id = pid,
                     c_session_id = sid, c_created_at = now\<rparr>
            in Inr (c, d\<lparr>chats := chats d @ [c]\<rparr>))
      else Inl OverflowError)"

text \<open>
  \<open>db.session.add(Message(...)); db.session.commit()\<close>. The chat key comes from a stored
  row, so it can be bound.
\<close>

definition add_message :: "nat \<Rightarrow> int \<Rightarrow> string \<Rightarrow> string \<Rightarrow> db \<Rightarrow> db" where
  "add_message now cid role content d =
     d\<lparr>messages := messages d @
        [\<lparr>m_id = next_id (map m_id (messages d)), m_chat_id = cid, m_role = role,
          m_content = content, m_created_at = now\<rparr>]\<rparr>"

text \<open>
  \<open>stream_chat\<close> up to its \<open>return\<close> (lines 224-259 and 276): everything that happens
  before the first event of the stream is asked for. An \<open>OverflowError\<close> of line 249 or of
  lines 251-253 ends the request with status 500, after \<open>last_used\<close> has been committed.
\<close>

definition stream_chat ::
  "cipher_suite \<Rightarrow> chat_clock \<Rightarrow> chat_request \<Rightarrow> db \<Rightarrow> chat_response \<times> db" where
  "stream_chat cs clk rq d =
     (let session_id = x_session_id rq;
          (api_key, d1) = get_api_key_from_session cs (at_last_used clk) session_id d
      in if api_key = None \<or> api_key = Some []
         then (JsonResponse
                 [(''error'', ''Invalid or expired session. Please set your API key in settings.'')]
                 401, d1)
         else
           let prompt_text = get_str (rq_prompt rq);
               user_input = get_str (rq_message rq);
               prompt_id = rq_prompt_id rq;
               chat_id = rq_chat_id rq;
               dispatched =
                 (if truthy chat_id
                  then (case chat_query_get (the chat_id) d1 of
                          Inl e \<Rightarrow> Inl e
                        | Inr chat \<Rightarrow> Inr (chat, d1))
                  else if truthy prompt_id
                  then (case add_chat (at_chat_created clk) (the prompt_id) (the session_id) d1 of
                          Inl e \<Rightarrow> Inl e
                        | Inr (c, d') \<Rightarrow> Inr (Some c, d'))
                  else Inr (None, d1))
           in case dispatched of
                Inl e \<Rightarrow> (InternalServerError e, d1)
              | Inr (chat, d2) \<Rightarrow>
                  let d3 = (case chat of
                              Some c \<Rightarrow> add_message (at_user_message clk) (c_id c) ''user''
                                          user_input d2
                            | None \<Rightarrow> d2)
                  in (EventStream \<lparr>g_api_key = the api_key,
                                    g_full_prompt = full_prompt prompt_text user_input,
                                    g_chat = chat\<rparr>, d3))"

text \<open>
  The identifier that lines 248-253 bind, if they bind one, fits: the chat identifier
  when it counts as given, else the prompt identifier when that does.
\<close>

definition dispatch_fits :: "chat_request \<Rightarrow> bool" where
  "dispatch_fits rq \<longleftrightarrow>
     (if truthy (rq_chat_id rq) then sqlite_integer (the (rq_chat_id rq))
      else truthy (rq_prompt_id rq) \<longrightarrow> sqlite_integer (the (rq_prompt_id rq)))"

text \<open>One server-sent event, \<open>f"data: {chunk.text}\n\n"\<close>.\<close>

definition sse :: "string \<Rightarrow> string" where
  "sse text = ''data: '' @ text @ [CHR 0x0A, CHR 0x0A]"

text \<open>
  The \<open>for\<close> loop of \<open>generate\<close> (lines 265-268) with its accumulator \<open>ai_response\<close>:
  the events yielded, and the accumulated text when the provider ended the stream or the
  text of the exception when it broke off.
\<close>

fun for_chunks :: "chunk_stream \<Rightarrow> string \<Rightarrow> string list \<times> (string + string)" where
  "for_chunks StreamEnd ai_response = ([], Inr ai_response)"
| "for_chunks (StreamError e) ai_response = ([], Inl e)"
| "for_chunks (Chunk text rest) ai_response =
     (if text \<noteq> []
      then (let (events, r) = for_chunks rest (ai_response @ text) in (sse text # events, r))
      else for_chunks rest ai_response)"

text \<open>
  The outcome of a stream read to its end: the events received and the exception that
  ended the generator early, if one did.
\<close>

record stream_result =
  events :: "string list"
  raised :: "string option"

text \<open>
  \<open>generate\<close> (lines 261-274), run by a caller that reads the whole stream; \<open>now\<close> is the
  clock reading for the assistant message. The generator runs inside the request's
  context, with the database session of the request still usable, which is what
  \<open>stream_with_context\<close> is there for.
\<close>

definition generate :: "genai \<Rightarrow> nat \<Rightarrow> generator \<Rightarrow> db \<Rightarrow> stream_result \<times> db" where
  "generate g now gen d =
     (let response = generate_content_stream g (g_api_key gen) (g_full_prompt gen);
          (evs, r) = for_chunks response []
      in case r of
           Inl e \<Rightarrow> (\<lparr>events = evs, raised = Some e\<rparr>, d)
         | Inr ai_response \<Rightarrow>
             (\<lparr>events = evs, raised = None\<rparr>,
              (case g_chat gen of
                 Some c \<Rightarrow> if ai_response \<noteq> []
                           then add_message now (c_id c) ''assistant'' ai_response d
                           else d
               | None \<Rightarrow> d)))"

section \<open>Conversation store: reading chats back, and the prompts that own them\<close>

record message_dict =
  md_id :: int
  md_role :: string
  md_content :: string
  md_created_at :: nat

record chat_dict =
  cd_id :: int
  cd_prompt_id :: int
  cd_created_at :: nat
  cd_messages :: "message_dict list"

text \<open>
  \<open>Message.to_dict\<close> (lines 88-94); \<open>isoformat()\<close> is kept as the timestamp itself.
\<close>

definition message_to_dict :: "message \<Rightarrow> message_dict" where
  "message_to_dict m =
     \<lparr>md_id = m_id m, md_role = m_role m, md_content = m_content m,
      md_created_at = m_created_at m\<rparr>"

text \<open>
  The relationship \<open>Chat.messages\<close> (line 71) loads the rows of \<open>message\<close> whose
  \<open>chat_id\<close> is the chat's key. It has no \<open>order_by\<close>: the rows come as the table scan
  of SQLite delivers them, in rowid order.
\<close>

definition chat_messages :: "db \<Rightarrow> chat \<Rightarrow> message list" where
  "chat_messages d c = filter (\<lambda>m. m_chat_id m = c_id c) (messages d)"

text \<open>\<open>Chat.to_dict\<close> (lines 73-79).\<close>

definition chat_to_dict :: "db \<Rightarrow> chat \<Rightarrow> chat_dict" where
  "chat_to_dict d c =
     \<lparr>cd_id = c_id c, cd_prompt_id = c_prompt_id c, cd_created_at = c_created_at c,
      cd_messages = map message_to_dict (chat_messages d c)\<rparr>"

text \<open>
  \<open>get_chats\<close> (lines 166-169): the chats of a prompt, newest first, chats of one creation
  time in rowid order. The prompt identifier of the route is bound as a parameter.
\<close>

definition get_chats :: "int \<Rightarrow> db \<Rightarrow> error + chat_dict list" where
  "get_chats prompt_id d =
     (if sqlite_integer prompt_id
      then Inr (map (chat_to_dict d)
                  (sort_key (\<lambda>c. - int (c_created_at c))
                     (filter (\<lambda>c. c_prompt_id c = prompt_id) (chats d))))
      else Inl OverflowError)"

text \<open>
  \<open>create_prompt\<close> (lines 133-145). \<open>data['title']\<close> and \<open>data['content']\<close> raise
  \<open>KeyError\<close> on a body without the field: status 500, nothing written.
\<close>

definition create_prompt ::
  "nat \<Rightarrow> nat \<Rightarrow> string option \<Rightarrow> string option \<Rightarrow> string option \<Rightarrow> db
     \<Rightarrow> (prompt option \<times> nat) \<times> db" where
  "create_prompt t_created t_updated title content category d =
     (case (title, content) of
        (Some ti, Some co) \<Rightarrow>
          let new_prompt = \<lparr>p_id = next_id (map p_id (prompts d)), p_title = ti,
                            p_content = co, p_created_at = t_created,
                            p_updated_at = t_updated,
                            p_category = (case category of None \<Rightarrow> ''General'' | Some ca \<Rightarrow> ca)\<rparr>
          in ((Some new_prompt, 201), d\<lparr>prompts := prompts d @ [new_prompt]\<rparr>)
      | _ \<Rightarrow> ((None, 500), d))"

text \<open>
  \<open>delete_prompt\<close> (lines 159-164): \<open>get_or_404\<close>, then the delete cascades through
  \<open>Prompt.chats\<close> and \<open>Chat.messages\<close> (\<open>cascade='all, delete-orphan'\<close>). An identifier
  that cannot be bound ends the lookup with an \<open>OverflowError\<close>: status 500.
\<close>

definition delete_prompt :: "int \<Rightarrow> db \<Rightarrow> nat \<times> db" where
  "delete_prompt prompt_id d =
     (if \<not> sqlite_integer prompt_id then (500, d)
      else
        (case find (\<lambda>p. p_id p = prompt_id) (prompts d) of
           None \<Rightarrow> (404, d)
         | Some p \<Rightarrow>
             let doomed = filter (\<lambda>c. c_prompt_id c = p_id p) (chats d)
             in (204,
                 d\<lparr>prompts := filter (\<lambda>q. p_id q \<noteq> p_id p) (prompts d),
                   chats := filter (\<lambda>c. c_prompt_id c \<noteq> p_id p) (chats d),
                   messages := filter (\<lambda>m. m_chat_id m \<notin> set (map c_id doomed))
                                 (messages d)\<rparr>)))"

section \<open>Histories of requests\<close>

text \<open>
  Every handler that writes a session, chat or message row, as one action with its clock
  readings; \<open>Generate\<close> is a stream read to its end, for whatever \<open>generate\<close> closed over.
  (\<open>update_prompt\<close> and \<open>get_prompts\<close> touch no row but a prompt's own text fields.)
\<close>

datatype action =
    CreatePrompt nat nat "string option" "string option" "string option"
  | DeletePrompt int
  | UpdateApiKey string string nat nat "string option"
  | StreamChat chat_clock chat_request
  | Generate nat generator

fun step :: "cipher_suite \<Rightarrow> genai \<Rightarrow> action \<Rightarrow> db \<Rightarrow> db" where
  "step cs g (CreatePrompt t1 t2 title content category) d =
     snd (create_prompt t1 t2 title content category d)"
| "step cs g (DeletePrompt pid) d = snd (delete_prompt pid d)"
| "step cs g (UpdateApiKey integrity_error token t1 t2 api_key) d =
     snd (update_api_key cs g integrity_error token t1 t2 api_key d)"
| "step cs g (StreamChat clk rq) d = snd (stream_chat cs clk rq d)"
| "step cs g (Generate now gen) d = snd (generate g now gen d)"

definition run :: "cipher_suite \<Rightarrow> genai \<Rightarrow> action list \<Rightarrow> db \<Rightarrow> db" where
  "run cs g acts d = fold (step cs g) acts d"

text \<open>The clock readings an action takes, in order.\<close>

fun clock_readings :: "action \<Rightarrow> nat list" where
  "clock_readings (CreatePrompt t1 t2 _ _ _) = [t1, t2]"
| "clock_readings (DeletePrompt _) = []"
| "clock_readings (UpdateApiKey _ _ t1 t2 _) = [t1, t2]"
| "clock_readings (StreamChat clk _) =
     [at_last_used clk, at_chat_created clk, at_user_message clk]"
| "clock_readings (Generate now _) = [now]"

section \<open>Concrete collaborators and stores, for evaluating the handlers\<close>

text \<open>
  A cipher that round-trips and rejects foreign tokens, a provider that accepts one key
  and streams a fixed response, and a store with one session, one prompt and one chat.
\<close>

definition demo_cipher :: cipher_suite where
  "demo_cipher =
     \<lparr>fernet_encrypt = (\<lambda>p. CHR ''g'' # p),
      fernet_decrypt = (\<lambda>c. case c of [] \<Rightarrow> None
                              | x # p \<Rightarrow> if x = CHR ''g'' then Some p else None)\<rparr>"

definition demo_genai :: "chunk_stream \<Rightarrow> genai" where
  "demo_genai response =
     \<lparr>generate_content = (\<lambda>k p. if k = ''good-key'' then Inr ''ok''
                                else Inl ''API key not valid''),
      generate_content_stream = (\<lambda>k p. response)\<rparr>"

definition demo_db :: db where
  "demo_db =
     \<lparr>user_sessions = [\<lparr>us_id = 1, us_session_id = ''tok'',
                         us_encrypted_api_key = ''ggood-key'',
                         us_created_at = 5, us_last_used = 5\<rparr>],
      prompts = [\<lparr>p_id = 1, p_title = ''T'', p_content = ''Be brief.'', p_created_at = 1,
                  p_updated_at = 1, p_category = ''General''\<rparr>],
      chats = [\<lparr>c_id = 1, c_prompt_id = 1, c_session_id = ''tok'', c_created_at = 6\<rparr>],
      messages = []\<rparr>"

definition corrupt_db :: db where
  "corrupt_db =
     \<lparr>user_sessions = [\<lparr>us_id = 1, us_session_id = ''tok'',
                         us_encrypted_api_key = ''tampered'',
                         us_created_at = 5, us_last_used = 5\<rparr>],
      prompts = [], chats = [], messages = []\<rparr>"

definition demo_integrity_error :: string where
  "demo_integrity_error =
     ''(sqlite3.IntegrityError) UNIQUE constraint failed: user_session.session_id''"

definition demo_clock :: chat_clock where
  "demo_clock = \<lparr>at_last_used = 10, at_chat_created = 11, at_user_message = 12\<rparr>"

text \<open>
  A history of requests that registers a key, starts a chat and reads its stream to
  the end.
\<close>

definition demo_history :: "action list" where
  "demo_history =
     [UpdateApiKey demo_integrity_error ''tok'' 1 2 (Some ''good-key''),
      StreamChat \<lparr>at_last_used = 3, at_chat_created = 4, at_user_message = 5\<rparr>
        \<lparr>x_session_id = Some ''tok'', rq_prompt = None, rq_message = Some ''hi'',
         rq_prompt_id = Some 1, rq_chat_id = None\<rparr>,
      Generate 6
        \<lparr>g_api_key = ''good-key'', g_full_prompt = ''hi'',
         g_chat = Some \<lparr>c_id = 1, c_prompt_id = 1, c_session_id = ''tok'',
                         c_created_at = 4\<rparr>\<rparr>]"

section \<open>The order of the message table\<close>

text \<open>
  What every history with a clock that does not run backwards keeps: down the message
  table creation times do not decrease and stay below the last clock reading \<open>t\<close>, and
  keys increase.
\<close>

definition messages_in_order :: "nat \<Rightarrow> db \<Rightarrow> bool" where
  "messages_in_order t d \<longleftrightarrow>
     sorted (map m_created_at (messages d))
     \<and> (\<forall>m\<in>set (messages d). m_created_at m \<le> t)
     \<and> sorted_wrt (<) (map m_id (messages d))"

section \<open>Session store: issuing and resolving\<close>

lemma find_append_new:
  "\<forall>x\<in>set xs. \<not> P x \<Longrightarrow> P y \<Longrightarrow> find P (xs @ [y]) = Some y"
  by (induction xs) auto

text \<open>
  Claim C1. When the provider accepts a raw credential, \<open>update_api_key\<close> answers 200 with
  the fresh token, and \<open>get_api_key_from_session\<close> on that token, in the store the first
  call left, returns exactly the credential. The cipher is Fernet's: decrypting what it
  encrypted gives the plaintext back. The token of \<open>secrets.token_urlsafe(32)\<close> is never
  empty, and the insertion succeeds when no stored session carries it yet.
\<close>

theorem issue_then_resolve_roundtrip:
  assumes cipher: "\<forall>p. fernet_decrypt cs (fernet_encrypt cs p) = Some p"
    and key: "new_key \<noteq> []"
    and accepted: "generate_content g new_key ''test'' = Inr r"
    and token: "token \<noteq> []"
    and fresh: "token \<notin> us_session_id ` set (user_sessions d)"
  shows "\<exists>d'. update_api_key cs g ie token t1 t2 (Some new_key) d =
            (([(''message'', ''API key saved successfully''), (''session_id'', token)], 200), d')
          \<and> fst (get_api_key_from_session cs now (Some token) d') = Some new_key"
proof -
  let ?s = "\<lparr>us_id = next_id (map us_id (user_sessions d)), us_session_id = token,
             us_encrypted_api_key = fernet_encrypt cs new_key, us_created_at = t1,
             us_last_used = t2\<rparr>"
  let ?d' = "d\<lparr>user_sessions := user_sessions d @ [?s]\<rparr>"
  have issue: "update_api_key cs g ie token t1 t2 (Some new_key) d =
      (([(''message'', ''API key saved successfully''), (''session_id'', token)], 200), ?d')"
    using key accepted fresh by (simp add: update_api_key_def Let_def)
  have "find (\<lambda>s. us_session_id s = token) (user_sessions d @ [?s]) = Some ?s"
    using fresh by (intro find_append_new) auto
  then have "fst (get_api_key_from_session cs now (Some token) ?d') = Some new_key"
    using token cipher by (simp add: get_api_key_from_session_def Let_def)
  with issue show ?thesis by blast
qed

theorem issue_then_resolve_roundtrip_witness:
  "(\<forall>p. fernet_decrypt demo_cipher (fernet_encrypt demo_cipher p) = Some p)
   \<and> ''good-key'' \<noteq> []
   \<and> generate_content (demo_genai StreamEnd) ''good-key'' ''test'' = Inr ''ok''
   \<and> ''tok2'' \<noteq> []
   \<and> ''tok2'' \<notin> us_session_id ` set (user_sessions demo_db)
   \<and> (\<exists>d'. update_api_key demo_cipher (demo_genai StreamEnd) demo_integrity_error ''tok2'' 7 8
              (Some ''good-key'') demo_db =
            (([(''message'', ''API key saved successfully''), (''session_id'', ''tok2'')], 200), d')
          \<and> fst (get_api_key_from_session demo_cipher 20 (Some ''tok2'') d') = Some ''good-key'')"
proof -
  have h1: "\<forall>p. fernet_decrypt demo_cipher (fernet_encrypt demo_cipher p) = Some p"
    by (simp add: demo_cipher_def)
  have h2: "''good-key'' \<noteq> []" by simp
  have h3: "generate_content (demo_genai StreamEnd) ''good-key'' ''test'' = Inr ''ok''"
    by (simp add: demo_genai_def)
  have h4: "''tok2'' \<noteq> []" by simp
  have h5: "''tok2'' \<notin> us_session_id ` set (user_sessions demo_db)"
    by (simp add: demo_db_def)
  show ?thesis
    using h1 h2 h3 h4 h5
      issue_then_resolve_roundtrip [OF h1 h2 h3 h4 h5, of demo_integrity_error 7 8 20]
    by blast
qed

text \<open>
  Claim C7. When the provider's test call raises for a raw credential (it rejects the key,
  or the call fails), \<open>update_api_key\<close> answers 400 with an error body and the store is
  the one it was given: no session row is created.
\<close>

theorem rejected_credential_creates_no_session:
  "generate_content g new_key ''test'' = Inl e \<Longrightarrow>
   update_api_key cs g ie token t1 t2 (Some new_key) d =
     (([(''error'', if new_key = [] then ''API key is required'' else e)], 400), d)"
  by (simp add: update_api_key_def)

theorem rejected_credential_creates_no_session_witness:
  "generate_content (demo_genai StreamEnd) ''bad-key'' ''test'' = Inl ''API key not valid''
   \<and> update_api_key demo_cipher (demo_genai StreamEnd) demo_integrity_error ''tok2'' 7 8
         (Some ''bad-key'') demo_db
       = (([(''error'', ''API key not valid'')], 400), demo_db)"
proof -
  have h: "generate_content (demo_genai StreamEnd) ''bad-key'' ''test'' = Inl ''API key not valid''"
    by (simp add: demo_genai_def)
  show ?thesis
    using h rejected_credential_creates_no_session
      [OF h, of demo_cipher demo_integrity_error "''tok2''" 7 8 demo_db]
    by simp
qed

section \<open>The handlers, step by step\<close>

lemma resolve_frame:
  "get_api_key_from_session cs now sid d = (r, d1) \<Longrightarrow>
   prompts d1 = prompts d \<and> chats d1 = chats d \<and> messages d1 = messages d"
  by (auto simp: get_api_key_from_session_def Let_def split: option.splits if_splits)

lemma resolve_sessions:
  "get_api_key_from_session cs now sid d = (r, d1) \<Longrightarrow>
   map (\<lambda>s. s\<lparr>us_last_used := 0\<rparr>) (user_sessions d1) =
   map (\<lambda>s. s\<lparr>us_last_used := 0\<rparr>) (user_sessions d)"
  by (auto simp: get_api_key_from_session_def Let_def split: option.splits if_splits)

lemma stream_chat_EventStream:
  assumes "stream_chat cs clk rq d = (EventStream gen, d')"
  shows "\<exists>k d1. get_api_key_from_session cs (at_last_used clk) (x_session_id rq) d = (Some k, d1)
           \<and> k \<noteq> [] \<and> g_api_key gen = k
           \<and> g_full_prompt gen = full_prompt (get_str (rq_prompt rq)) (get_str (rq_message rq))
           \<and> user_sessions d' = user_sessions d1 \<and> prompts d' = prompts d
           \<and> (case g_chat gen of
                 None \<Rightarrow> d' = d1 \<and> chats d' = chats d \<and> messages d' = messages d
                        \<and> (if truthy (rq_chat_id rq)
                            then chat_query_get (the (rq_chat_id rq)) d = Inr None
                            else \<not> truthy (rq_prompt_id rq))
               | Some c \<Rightarrow> messages d' = messages d @
                            [\<lparr>m_id = next_id (map m_id (messages d)), m_chat_id = c_id c,
                              m_role = ''user'', m_content = get_str (rq_message rq),
                              m_created_at = at_user_message clk\<rparr>]
                        \<and> (if truthy (rq_chat_id rq)
                            then chat_query_get (the (rq_chat_id rq)) d = Inr (Some c)
                               \<and> chats d' = chats d
                            else truthy (rq_prompt_id rq) \<and> chats d' = chats d @ [c]
                               \<and> c = \<lparr>c_id = next_id (map c_id (chats d)),
                                       c_prompt_id = the (rq_prompt_id rq),
                                       c_session_id = the (x_session_id rq),
                                       c_created_at = at_chat_created clk\<rparr>))"
proof -
  obtain r d1 where res: "get_api_key_from_session cs (at_last_used clk) (x_session_id rq) d = (r, d1)"
    by (cases "get_api_key_from_session cs (at_last_used clk) (x_session_id rq) d")
  note fr = resolve_frame [OF res]
  from assms res obtain k where k: "r = Some k" "k \<noteq> []"
    by (cases r) (auto simp: stream_chat_def Let_def split: if_splits prod.splits)
  show ?thesis
    using assms res k fr
    by (auto simp: stream_chat_def Let_def add_chat_def add_message_def chat_query_get_def
          split: if_splits prod.splits option.splits sum.splits)
qed

lemma stream_chat_valid:
  assumes "get_api_key_from_session cs (at_last_used clk) (x_session_id rq) d = (Some k, d1)"
    and "k \<noteq> []"
    and "dispatch_fits rq"
  shows "\<exists>gen d'. stream_chat cs clk rq d = (EventStream gen, d')"
  using assms
  by (auto simp: stream_chat_def Let_def dispatch_fits_def chat_query_get_def add_chat_def
        split: prod.splits sum.splits if_splits)

lemma for_chunks_foldr:
  "for_chunks (foldr Chunk texts StreamEnd) acc =
     (map sse (filter (\<lambda>t. t \<noteq> []) texts), Inr (acc @ concat texts))"
  by (induction texts arbitrary: acc) auto

lemma stream_chat_no_stream:
  assumes "stream_chat cs clk rq d = (r, d')" and "\<forall>gen. r \<noteq> EventStream gen"
  shows "prompts d' = prompts d \<and> chats d' = chats d \<and> messages d' = messages d"
proof -
  obtain k d1 where res: "get_api_key_from_session cs (at_last_used clk) (x_session_id rq) d = (k, d1)"
    by (cases "get_api_key_from_session cs (at_last_used clk) (x_session_id rq) d")
  note fr = resolve_frame [OF res]
  show ?thesis using assms res fr
    by (auto simp: stream_chat_def Let_def split: if_splits prod.splits sum.splits)
qed

lemma stream_chat_overflow:
  assumes "get_api_key_from_session cs (at_last_used clk) (x_session_id rq) d = (Some k, d1)"
    and "k \<noteq> []"
    and "\<not> dispatch_fits rq"
  shows "stream_chat cs clk rq d = (InternalServerError OverflowError, d1)"
  using assms
  by (auto simp: stream_chat_def Let_def dispatch_fits_def chat_query_get_def add_chat_def
        split: prod.splits sum.splits if_splits)

text \<open>The handlers on the concrete store.\<close>

lemma demo_resolve:
  "get_api_key_from_session demo_cipher (at_last_used demo_clock) (Some ''tok'') demo_db =
     (Some ''good-key'',
      demo_db\<lparr>user_sessions := [\<lparr>us_id = 1, us_session_id = ''tok'',
                                     us_encrypted_api_key = ''ggood-key'',
                                     us_created_at = 5, us_last_used = 10\<rparr>]\<rparr>)"
  by (simp add: get_api_key_from_session_def demo_cipher_def demo_db_def demo_clock_def)

lemmas demo_simps =
  stream_chat_def get_api_key_from_session_def demo_cipher_def demo_db_def
  demo_clock_def get_str_def truthy_def full_prompt_def add_chat_def add_message_def
  chat_query_get_def sqlite_integer_def next_id_def Let_def


text \<open>
  An identifier one past the largest 64-bit integer, as chat identifier and as prompt
  identifier: status 500, with \<open>last_used\<close> already written and nothing else.
\<close>

lemma demo_overflow:
  "stream_chat demo_cipher demo_clock
     \<lparr>x_session_id = Some ''tok'', rq_prompt = None, rq_message = Some ''hi'',
      rq_prompt_id = None, rq_chat_id = Some (2 ^ 63)\<rparr> demo_db =
   (InternalServerError OverflowError,
    demo_db\<lparr>user_sessions := [\<lparr>us_id = 1, us_session_id = ''tok'',
                                   us_encrypted_api_key = ''ggood-key'',
                                   us_created_at = 5, us_last_used = 10\<rparr>]\<rparr>)"
  "stream_chat demo_cipher demo_clock
     \<lparr>x_session_id = Some ''tok'', rq_prompt = None, rq_message = Some ''hi'',
      rq_prompt_id = Some (2 ^ 63), rq_chat_id = None\<rparr> demo_db =
   (InternalServerError OverflowError,
    demo_db\<lparr>user_sessions := [\<lparr>us_id = 1, us_session_id = ''tok'',
                                   us_encrypted_api_key = ''ggood-key'',
                                   us_created_at = 5, us_last_used = 10\<rparr>]\<rparr>)"
  by (simp_all add: demo_simps)

section \<open>Session store: what resolving writes\<close>

text \<open>
  The input of claim C4 on the code: a session whose ciphertext does not decrypt.
  \<open>get_api_key_from_session\<close> returns \<open>None\<close>, and the stored row has the new \<open>last_used\<close>.
\<close>

theorem corrupt_session_counterexample:
  "fernet_decrypt demo_cipher ''tampered'' = None
   \<and> get_api_key_from_session demo_cipher 9 (Some ''tok'') corrupt_db =
       (None,
        \<lparr>user_sessions = [\<lparr>us_id = 1, us_session_id = ''tok'',
                             us_encrypted_api_key = ''tampered'',
                             us_created_at = 5, us_last_used = 9\<rparr>],
         prompts = [], chats = [], messages = []\<rparr>)
   \<and> snd (get_api_key_from_session demo_cipher 9 (Some ''tok'') corrupt_db) \<noteq> corrupt_db"
  by (simp add: get_api_key_from_session_def demo_cipher_def corrupt_db_def)

text \<open>
  Claim C4, as the code has it. Resolving a token that a stored row carries writes
  \<open>last_used\<close> before it decrypts: the result is whatever decryption gives, \<open>None\<close>
  when it fails, and in both cases every session row is the row it was except for
  \<open>last_used\<close>, which is the current time in the rows with the found row's key; prompts,
  chats and messages are untouched.
\<close>

theorem resolve_refreshes_last_used_before_decrypt:
  assumes "sid \<noteq> []"
    and "find (\<lambda>s. us_session_id s = sid) (user_sessions d) = Some session"
  shows "\<exists>d'. get_api_key_from_session cs now (Some sid) d =
                 (fernet_decrypt cs (us_encrypted_api_key session), d')
           \<and> prompts d' = prompts d \<and> chats d' = chats d \<and> messages d' = messages d
           \<and> length (user_sessions d') = length (user_sessions d)
           \<and> (\<forall>i < length (user_sessions d).
                 user_sessions d' ! i =
                   (user_sessions d ! i)
                     \<lparr>us_last_used := (if us_id (user_sessions d ! i) = us_id session then now
                                        else us_last_used (user_sessions d ! i))\<rparr>)"
  using assms by (simp add: get_api_key_from_session_def Let_def)

theorem resolve_refreshes_last_used_before_decrypt_witness:
  "''tok'' \<noteq> []
   \<and> find (\<lambda>s. us_session_id s = ''tok'') (user_sessions corrupt_db) =
       Some \<lparr>us_id = 1, us_session_id = ''tok'', us_encrypted_api_key = ''tampered'',
              us_created_at = 5, us_last_used = 5\<rparr>
   \<and> (\<exists>d'. get_api_key_from_session demo_cipher 9 (Some ''tok'') corrupt_db = (None, d')
          \<and> prompts d' = prompts corrupt_db \<and> chats d' = chats corrupt_db
          \<and> messages d' = messages corrupt_db
          \<and> length (user_sessions d') = length (user_sessions corrupt_db)
          \<and> user_sessions d' ! 0 = (user_sessions corrupt_db ! 0)\<lparr>us_last_used := 9\<rparr>)"
proof -
  let ?s = "\<lparr>us_id = 1, us_session_id = ''tok'', us_encrypted_api_key = ''tampered'',
             us_created_at = 5, us_last_used = 5\<rparr>"
  have h1: "''tok'' \<noteq> []" by simp
  have h2: "find (\<lambda>s. us_session_id s = ''tok'') (user_sessions corrupt_db) = Some ?s"
    by (simp add: corrupt_db_def)
  have dec: "fernet_decrypt demo_cipher (us_encrypted_api_key ?s) = None"
    by (simp add: demo_cipher_def)
  have len: "length (user_sessions corrupt_db) = 1" "user_sessions corrupt_db ! 0 = ?s"
    by (simp_all add: corrupt_db_def)
  from resolve_refreshes_last_used_before_decrypt [OF h1 h2, of demo_cipher 9]
  obtain d' where d': "get_api_key_from_session demo_cipher 9 (Some ''tok'') corrupt_db = (None, d')"
    "prompts d' = prompts corrupt_db" "chats d' = chats corrupt_db"
    "messages d' = messages corrupt_db"
    "length (user_sessions d') = length (user_sessions corrupt_db)"
    "\<forall>i < length (user_sessions corrupt_db).
        user_sessions d' ! i =
          (user_sessions corrupt_db ! i)
            \<lparr>us_last_used := (if us_id (user_sessions corrupt_db ! i) = us_id ?s then 9
                               else us_last_used (user_sessions corrupt_db ! i))\<rparr>"
    unfolding dec by blast
  from d'(6) len have "user_sessions d' ! 0 = (user_sessions corrupt_db ! 0)\<lparr>us_last_used := 9\<rparr>"
    by simp
  with h1 h2 d' show ?thesis by blast
qed

section \<open>Stream orchestrator: validation and dispatch\<close>

text \<open>
  The input of claim C2 on the code: an empty user message under a valid session and a
  prompt identifier. The response is an event stream; a chat and a user message with
  empty content have been written.
\<close>

theorem empty_message_counterexample:
  "stream_chat demo_cipher demo_clock
     \<lparr>x_session_id = Some ''tok'', rq_prompt = None, rq_message = Some [],
      rq_prompt_id = Some 1, rq_chat_id = None\<rparr> demo_db =
   (EventStream \<lparr>g_api_key = ''good-key'', g_full_prompt = [],
                  g_chat = Some \<lparr>c_id = 2, c_prompt_id = 1, c_session_id = ''tok'',
                                  c_created_at = 11\<rparr>\<rparr>,
    \<lparr>user_sessions = [\<lparr>us_id = 1, us_session_id = ''tok'',
                         us_encrypted_api_key = ''ggood-key'',
                         us_created_at = 5, us_last_used = 10\<rparr>],
     prompts = prompts demo_db,
     chats = [\<lparr>c_id = 1, c_prompt_id = 1, c_session_id = ''tok'', c_created_at = 6\<rparr>,
              \<lparr>c_id = 2, c_prompt_id = 1, c_session_id = ''tok'', c_created_at = 11\<rparr>],
     messages = [\<lparr>m_id = 1, m_chat_id = 2, m_role = ''user'', m_content = [],
                   m_created_at = 12\<rparr>]\<rparr>)"
  by (simp add: demo_simps)

text \<open>
  Claim C2, as the code has it. An empty (or absent) user message is not refused: under
  a session that resolves to a non-empty key, and with an identifier for the dispatch that
  SQLite can bind, the response is the event stream for the prompt built from the empty
  message, and when a chat is found or created the user message, with empty content, is
  written before the stream starts.
\<close>

theorem empty_message_is_streamed:
  assumes "get_api_key_from_session cs (at_last_used clk) (x_session_id rq) d = (Some k, d1)"
    and "k \<noteq> []"
    and "dispatch_fits rq"
    and "get_str (rq_message rq) = []"
  shows "\<exists>gen d'. stream_chat cs clk rq d = (EventStream gen, d')
           \<and> g_full_prompt gen = full_prompt (get_str (rq_prompt rq)) []
           \<and> (case g_chat gen of
                 None \<Rightarrow> messages d' = messages d
               | Some c \<Rightarrow> messages d' = messages d @
                            [\<lparr>m_id = next_id (map m_id (messages d)), m_chat_id = c_id c,
                              m_role = ''user'', m_content = [],
                              m_created_at = at_user_message clk\<rparr>])"
proof -
  from stream_chat_valid [OF assms(1,2,3)] obtain gen d'
    where sc: "stream_chat cs clk rq d = (EventStream gen, d')" by blast
  from stream_chat_EventStream [OF sc] assms(4)
  have "g_full_prompt gen = full_prompt (get_str (rq_prompt rq)) []
        \<and> (case g_chat gen of
              None \<Rightarrow> messages d' = messages d
            | Some c \<Rightarrow> messages d' = messages d @
                         [\<lparr>m_id = next_id (map m_id (messages d)), m_chat_id = c_id c,
                           m_role = ''user'', m_content = [],
                           m_created_at = at_user_message clk\<rparr>])"
    by (auto split: option.splits)
  with sc show ?thesis by blast
qed

theorem empty_message_is_streamed_witness:
  "get_api_key_from_session demo_cipher (at_last_used demo_clock)
     (x_session_id \<lparr>x_session_id = Some ''tok'', rq_prompt = None, rq_message = Some [],
                     rq_prompt_id = Some 1, rq_chat_id = None\<rparr>) demo_db =
     (Some ''good-key'',
      demo_db\<lparr>user_sessions := [\<lparr>us_id = 1, us_session_id = ''tok'',
                                     us_encrypted_api_key = ''ggood-key'',
                                     us_created_at = 5, us_last_used = 10\<rparr>]\<rparr>)
   \<and> ''good-key'' \<noteq> []
   \<and> dispatch_fits \<lparr>x_session_id = Some ''tok'', rq_prompt = None, rq_message = Some [],
                     rq_prompt_id = Some 1, rq_chat_id = None\<rparr>
   \<and> get_str (rq_message \<lparr>x_session_id = Some ''tok'', rq_prompt = None, rq_message = Some [],
                            rq_prompt_id = Some 1, rq_chat_id = None\<rparr>) = []
   \<and> (\<exists>gen d'. stream_chat demo_cipher demo_clock
                  \<lparr>x_session_id = Some ''tok'', rq_prompt = None, rq_message = Some [],
                   rq_prompt_id = Some 1, rq_chat_id = None\<rparr> demo_db = (EventStream gen, d')
           \<and> g_full_prompt gen = []
           \<and> (case g_chat gen of
                 None \<Rightarrow> messages d' = messages demo_db
               | Some c \<Rightarrow> messages d' = messages demo_db @
                            [\<lparr>m_id = 1, m_chat_id = c_id c, m_role = ''user'', m_content = [],
                              m_created_at = 12\<rparr>]))"
proof -
  let ?rq = "\<lparr>x_session_id = Some ''tok'', rq_prompt = None, rq_message = Some [],
              rq_prompt_id = Some 1, rq_chat_id = None\<rparr>"
  have h1: "get_api_key_from_session demo_cipher (at_last_used demo_clock) (x_session_id ?rq)
              demo_db =
     (Some ''good-key'',
      demo_db\<lparr>user_sessions := [\<lparr>us_id = 1, us_session_id = ''tok'',
                                     us_encrypted_api_key = ''ggood-key'',
                                     us_created_at = 5, us_last_used = 10\<rparr>]\<rparr>)"
    using demo_resolve by simp
  have h2: "''good-key'' \<noteq> []" by simp
  have h3: "dispatch_fits ?rq" by (simp add: dispatch_fits_def truthy_def sqlite_integer_def)
  have h4: "get_str (rq_message ?rq) = []" by (simp add: get_str_def)
  have e1: "full_prompt (get_str (rq_prompt ?rq)) [] = []"
    by (simp add: full_prompt_def get_str_def)
  have e2: "next_id (map m_id (messages demo_db)) = 1" "at_user_message demo_clock = 12"
    by (simp_all add: next_id_def demo_db_def demo_clock_def)
  show ?thesis
    using h1 h2 h3 h4 empty_message_is_streamed [OF h1 h2 h3 h4]
    unfolding e1 e2 by blast
qed

text \<open>
  The request of claim C3 on the code: a chat identifier that no chat carries, under a
  valid session. The response is an event stream, not an error, and reading it relays
  what the provider sent.
\<close>

theorem unknown_chat_id_counterexample:
  "stream_chat demo_cipher demo_clock
     \<lparr>x_session_id = Some ''tok'', rq_prompt = None, rq_message = Some ''hi'',
      rq_prompt_id = None, rq_chat_id = Some 99\<rparr> demo_db =
   (EventStream \<lparr>g_api_key = ''good-key'', g_full_prompt = ''hi'', g_chat = None\<rparr>,
    demo_db\<lparr>user_sessions := [\<lparr>us_id = 1, us_session_id = ''tok'',
                                   us_encrypted_api_key = ''ggood-key'',
                                   us_created_at = 5, us_last_used = 10\<rparr>]\<rparr>)
   \<and> fst (generate (demo_genai (Chunk ''Hi'' StreamEnd)) 13
            \<lparr>g_api_key = ''good-key'', g_full_prompt = ''hi'', g_chat = None\<rparr>
            (demo_db\<lparr>user_sessions := [\<lparr>us_id = 1, us_session_id = ''tok'',
                                   us_encrypted_api_key = ''ggood-key'',
                                   us_created_at = 5, us_last_used = 10\<rparr>]\<rparr>)) =
     \<lparr>events = [''data: Hi\<newline>\<newline>''], raised = None\<rparr>"
  by (simp add: demo_simps generate_def demo_genai_def sse_def)

text \<open>
  Claim C3, as the code has it. A request under a valid session whose chat identifier is
  non-zero, can be bound by SQLite and matches no chat is not refused: \<open>chat\<close> stays
  \<open>None\<close>, the response is the event stream, the stream relays the provider's answer to
  the prompt, and neither \<open>stream_chat\<close> nor the generator writes a chat or a message.
\<close>

theorem unknown_chat_id_is_streamed_unsaved:
  assumes "get_api_key_from_session cs (at_last_used clk) (x_session_id rq) d = (Some k, d1)"
    and "k \<noteq> []"
    and "rq_chat_id rq = Some cid" and "cid \<noteq> 0" and "sqlite_integer cid"
    and "cid \<notin> c_id ` set (chats d)"
  shows "\<exists>gen d'. stream_chat cs clk rq d = (EventStream gen, d')
           \<and> g_chat gen = None \<and> chats d' = chats d \<and> messages d' = messages d
           \<and> events (fst (generate g now gen d')) =
               fst (for_chunks (generate_content_stream g k
                      (full_prompt (get_str (rq_prompt rq)) (get_str (rq_message rq)))) [])
           \<and> snd (generate g now gen d') = d'"
proof -
  have tr: "truthy (rq_chat_id rq)" using assms(3,4) by (simp add: truthy_def)
  then have fits: "dispatch_fits rq" using assms(3,5) by (simp add: dispatch_fits_def)
  from stream_chat_valid [OF assms(1,2) fits] obtain gen d'
    where sc: "stream_chat cs clk rq d = (EventStream gen, d')" by blast
  have "find (\<lambda>c. c_id c = cid) (chats d) = None"
    using assms(6) by (auto simp: find_None_iff)
  then have absent: "chat_query_get cid d = Inr None"
    using assms(5) by (simp add: chat_query_get_def)
  from stream_chat_EventStream [OF sc] assms(1,3) absent tr
  have a: "g_chat gen = None" "chats d' = chats d" "messages d' = messages d"
    "g_api_key gen = k"
    "g_full_prompt gen = full_prompt (get_str (rq_prompt rq)) (get_str (rq_message rq))"
    by (auto split: option.splits)
  have "events (fst (generate g now gen d')) =
          fst (for_chunks (generate_content_stream g k
                 (full_prompt (get_str (rq_prompt rq)) (get_str (rq_message rq)))) [])"
    using a by (simp add: generate_def Let_def split: prod.splits sum.splits)
  moreover have "snd (generate g now gen d') = d'"
    using a by (simp add: generate_def Let_def split: prod.splits sum.splits)
  ultimately show ?thesis using sc a by blast
qed

theorem unknown_chat_id_is_streamed_unsaved_witness:
  "get_api_key_from_session demo_cipher (at_last_used demo_clock)
     (x_session_id \<lparr>x_session_id = Some ''tok'', rq_prompt = None, rq_message = Some ''hi'',
                     rq_prompt_id = None, rq_chat_id = Some 99\<rparr>) demo_db =
     (Some ''good-key'',
      demo_db\<lparr>user_sessions := [\<lparr>us_id = 1, us_session_id = ''tok'',
                                     us_encrypted_api_key = ''ggood-key'',
                                     us_created_at = 5, us_last_used = 10\<rparr>]\<rparr>)
   \<and> ''good-key'' \<noteq> [] \<and> (99::int) \<noteq> 0 \<and> sqlite_integer 99
   \<and> 99 \<notin> c_id ` set (chats demo_db)
   \<and> (\<exists>gen d'. stream_chat demo_cipher demo_clock
                  \<lparr>x_session_id = Some ''tok'', rq_prompt = None, rq_message = Some ''hi'',
                   rq_prompt_id = None, rq_chat_id = Some 99\<rparr> demo_db = (EventStream gen, d')
           \<and> g_chat gen = None \<and> chats d' = chats demo_db \<and> messages d' = messages demo_db
           \<and> events (fst (generate (demo_genai (Chunk ''Hi'' StreamEnd)) 13 gen d')) =
               [''data: Hi\<newline>\<newline>'']
           \<and> snd (generate (demo_genai (Chunk ''Hi'' StreamEnd)) 13 gen d') = d')"
proof -
  let ?rq = "\<lparr>x_session_id = Some ''tok'', rq_prompt = None, rq_message = Some ''hi'',
              rq_prompt_id = None, rq_chat_id = Some 99\<rparr>"
  have h1: "get_api_key_from_session demo_cipher (at_last_used demo_clock) (x_session_id ?rq)
              demo_db =
     (Some ''good-key'',
      demo_db\<lparr>user_sessions := [\<lparr>us_id = 1, us_session_id = ''tok'',
                                     us_encrypted_api_key = ''ggood-key'',
                                     us_created_at = 5, us_last_used = 10\<rparr>]\<rparr>)"
    using demo_resolve by simp
  have h2: "''good-key'' \<noteq> []" by simp
  have h3: "rq_chat_id ?rq = Some 99" by simp
  have h4: "(99::int) \<noteq> 0" by simp
  have h5: "sqlite_integer 99" by (simp add: sqlite_integer_def)
  have h6: "99 \<notin> c_id ` set (chats demo_db)" by (simp add: demo_db_def)
  have ev: "fst (for_chunks (generate_content_stream (demo_genai (Chunk ''Hi'' StreamEnd))
                 ''good-key'' (full_prompt (get_str (rq_prompt ?rq)) (get_str (rq_message ?rq)))) [])
            = [''data: Hi\<newline>\<newline>'']"
    by (simp add: demo_genai_def sse_def)
  show ?thesis
    using h1 h2 h4 h5 h6
      unknown_chat_id_is_streamed_unsaved [OF h1 h2 h3 h4 h5 h6,
        of "demo_genai (Chunk ''Hi'' StreamEnd)" 13]
    unfolding ev by blast
qed

text \<open>
  The inputs of claim C8 on the code: a request that continues chat 1 and carries a prompt
  text has the text prepended; a request that starts a chat and carries none sends the
  bare message.
\<close>

theorem provider_prompt_counterexample:
  "chat_query_get 1 demo_db =
     Inr (Some \<lparr>c_id = 1, c_prompt_id = 1, c_session_id = ''tok'', c_created_at = 6\<rparr>)
   \<and> fst (stream_chat demo_cipher demo_clock
       \<lparr>x_session_id = Some ''tok'', rq_prompt = Some ''Be brief.'', rq_message = Some ''hi'',
        rq_prompt_id = None, rq_chat_id = Some 1\<rparr> demo_db) =
     EventStream \<lparr>g_api_key = ''good-key'', g_full_prompt = ''Be brief.\<newline>\<newline>User: hi'',
                   g_chat = Some \<lparr>c_id = 1, c_prompt_id = 1, c_session_id = ''tok'',
                                   c_created_at = 6\<rparr>\<rparr>
   \<and> fst (stream_chat demo_cipher demo_clock
       \<lparr>x_session_id = Some ''tok'', rq_prompt = None, rq_message = Some ''hi'',
        rq_prompt_id = Some 1, rq_chat_id = None\<rparr> demo_db) =
     EventStream \<lparr>g_api_key = ''good-key'', g_full_prompt = ''hi'',
                   g_chat = Some \<lparr>c_id = 2, c_prompt_id = 1, c_session_id = ''tok'',
                                   c_created_at = 11\<rparr>\<rparr>"
  by (simp add: demo_simps)

text \<open>
  Claim C8, as the code has it. The prompt sent to the provider is built from the request
  alone: the request's \<open>prompt\<close> text, a blank line, \<open>User: \<close> and the user message when
  that text is non-empty, and the bare user message otherwise, whether the request starts
  a chat or continues one. No stored message enters it.
\<close>

theorem provider_prompt_from_request_text:
  assumes "stream_chat cs clk rq d = (EventStream gen, d1)"
  shows "g_full_prompt gen =
           (if get_str (rq_prompt rq) \<noteq> []
            then get_str (rq_prompt rq) @ ''\<newline>\<newline>User: '' @ get_str (rq_message rq)
            else get_str (rq_message rq))
         \<and> events (fst (generate g now gen d1)) =
             fst (for_chunks (generate_content_stream g (g_api_key gen)
                    (if get_str (rq_prompt rq) \<noteq> []
                     then get_str (rq_prompt rq) @ ''\<newline>\<newline>User: '' @ get_str (rq_message rq)
                     else get_str (rq_message rq))) [])"
proof -
  from stream_chat_EventStream [OF assms]
  have fp: "g_full_prompt gen =
           (if get_str (rq_prompt rq) \<noteq> []
            then get_str (rq_prompt rq) @ ''\<newline>\<newline>User: '' @ get_str (rq_message rq)
            else get_str (rq_message rq))"
    by (auto simp: full_prompt_def)
  have "events (fst (generate g now gen d1)) =
          fst (for_chunks (generate_content_stream g (g_api_key gen) (g_full_prompt gen)) [])"
    by (simp add: generate_def Let_def split: prod.splits sum.splits)
  with fp show ?thesis by simp
qed

theorem provider_prompt_from_request_text_witness:
  "stream_chat demo_cipher demo_clock
     \<lparr>x_session_id = Some ''tok'', rq_prompt = Some ''Be brief.'', rq_message = Some ''hi'',
      rq_prompt_id = None, rq_chat_id = Some 1\<rparr> demo_db =
   (EventStream \<lparr>g_api_key = ''good-key'', g_full_prompt = ''Be brief.\<newline>\<newline>User: hi'',
                  g_chat = Some \<lparr>c_id = 1, c_prompt_id = 1, c_session_id = ''tok'',
                                  c_created_at = 6\<rparr>\<rparr>,
    \<lparr>user_sessions = [\<lparr>us_id = 1, us_session_id = ''tok'',
                         us_encrypted_api_key = ''ggood-key'',
                         us_created_at = 5, us_last_used = 10\<rparr>],
     prompts = prompts demo_db,
     chats = [\<lparr>c_id = 1, c_prompt_id = 1, c_session_id = ''tok'', c_created_at = 6\<rparr>],
     messages = [\<lparr>m_id = 1, m_chat_id = 1, m_role = ''user'', m_content = ''hi'',
                   m_created_at = 12\<rparr>]\<rparr>)
   \<and> events (fst (generate (demo_genai (Chunk ''Hi'' StreamEnd)) 13
        \<lparr>g_api_key = ''good-key'', g_full_prompt = ''Be brief.\<newline>\<newline>User: hi'',
         g_chat = Some \<lparr>c_id = 1, c_prompt_id = 1, c_session_id = ''tok'', c_created_at = 6\<rparr>\<rparr>
        \<lparr>user_sessions = [\<lparr>us_id = 1, us_session_id = ''tok'',
                         us_encrypted_api_key = ''ggood-key'',
                         us_created_at = 5, us_last_used = 10\<rparr>],
         prompts = prompts demo_db,
         chats = [\<lparr>c_id = 1, c_prompt_id = 1, c_session_id = ''tok'', c_created_at = 6\<rparr>],
         messages = [\<lparr>m_id = 1, m_chat_id = 1, m_role = ''user'', m_content = ''hi'',
                   m_created_at = 12\<rparr>]\<rparr>)) = [''data: Hi\<newline>\<newline>'']"
proof -
  let ?rq = "\<lparr>x_session_id = Some ''tok'', rq_prompt = Some ''Be brief.'',
              rq_message = Some ''hi'', rq_prompt_id = None, rq_chat_id = Some 1\<rparr>"
  let ?gen = "\<lparr>g_api_key = ''good-key'', g_full_prompt = ''Be brief.\<newline>\<newline>User: hi'',
               g_chat = Some \<lparr>c_id = 1, c_prompt_id = 1, c_session_id = ''tok'',
                               c_created_at = 6\<rparr>\<rparr>"
  let ?d1 = "\<lparr>user_sessions = [\<lparr>us_id = 1, us_session_id = ''tok'',
                         us_encrypted_api_key = ''ggood-key'',
                         us_created_at = 5, us_last_used = 10\<rparr>],
     prompts = prompts demo_db,
     chats = [\<lparr>c_id = 1, c_prompt_id = 1, c_session_id = ''tok'', c_created_at = 6\<rparr>],
     messages = [\<lparr>m_id = 1, m_chat_id = 1, m_role = ''user'', m_content = ''hi'',
                   m_created_at = 12\<rparr>]\<rparr>"
  have h1: "stream_chat demo_cipher demo_clock ?rq demo_db = (EventStream ?gen, ?d1)"
    by (simp add: demo_simps)
  show ?thesis
    using h1 provider_prompt_from_request_text [OF h1, of "demo_genai (Chunk ''Hi'' StreamEnd)" 13]
    by (simp add: get_str_def demo_genai_def sse_def)
qed

section \<open>Stream orchestrator: relaying and persisting\<close>





text \<open>
  The request of claim C10 on the code: a valid session, no chat identifier and no prompt
  identifier. No chat is resolved and the response is the event stream, but the store is
  not the one the request found: the session's \<open>last_used\<close> has moved from 5 to 10.
\<close>

theorem no_chat_resolved_counterexample:
  "stream_chat demo_cipher demo_clock
     \<lparr>x_session_id = Some ''tok'', rq_prompt = None, rq_message = Some ''hi'',
      rq_prompt_id = None, rq_chat_id = None\<rparr> demo_db =
   (EventStream \<lparr>g_api_key = ''good-key'', g_full_prompt = ''hi'', g_chat = None\<rparr>,
    demo_db\<lparr>user_sessions := [\<lparr>us_id = 1, us_session_id = ''tok'',
                                   us_encrypted_api_key = ''ggood-key'',
                                   us_created_at = 5, us_last_used = 10\<rparr>]\<rparr>)
   \<and> map us_last_used (user_sessions demo_db) = [5]
   \<and> snd (stream_chat demo_cipher demo_clock
       \<lparr>x_session_id = Some ''tok'', rq_prompt = None, rq_message = Some ''hi'',
        rq_prompt_id = None, rq_chat_id = None\<rparr> demo_db) \<noteq> demo_db"
  by (simp add: demo_simps)

text \<open>
  Claim C10, as the code has it. Under a valid session, when no chat is resolved (a
  non-zero chat identifier that SQLite can bind and that matches no chat, or neither a chat
  identifier nor a prompt identifier that counts as given), the response is the event
  stream with \<open>chat = None\<close>, the generator still streams the provider's fragments, and
  nothing is written for the conversation: prompts, chats and messages are unchanged. The
  store is the one the resolving of the session left: its session rows differ from before
  in \<open>last_used\<close> only, and the row of the request's session carries the new reading.
\<close>

theorem no_chat_resolved_streams_without_persisting:
  assumes res: "get_api_key_from_session cs (at_last_used clk) (x_session_id rq) d = (Some k, d1)"
    and k: "k \<noteq> []"
    and unresolved:
      "(truthy (rq_chat_id rq) \<and> sqlite_integer (the (rq_chat_id rq))
          \<and> the (rq_chat_id rq) \<notin> c_id ` set (chats d))
       \<or> (\<not> truthy (rq_chat_id rq) \<and> \<not> truthy (rq_prompt_id rq))"
    and emits: "generate_content_stream g k
                  (full_prompt (get_str (rq_prompt rq)) (get_str (rq_message rq))) =
                foldr Chunk texts StreamEnd"
  shows "\<exists>gen. stream_chat cs clk rq d = (EventStream gen, d1) \<and> g_chat gen = None
           \<and> prompts d1 = prompts d \<and> chats d1 = chats d \<and> messages d1 = messages d
           \<and> map (\<lambda>s. s\<lparr>us_last_used := 0\<rparr>) (user_sessions d1) =
               map (\<lambda>s. s\<lparr>us_last_used := 0\<rparr>) (user_sessions d)
           \<and> (\<exists>s\<in>set (user_sessions d1).
                 Some (us_session_id s) = x_session_id rq \<and> us_last_used s = at_last_used clk)
           \<and> generate g now gen d1 =
               (\<lparr>events = map sse (filter (\<lambda>t. t \<noteq> []) texts), raised = None\<rparr>, d1)"
proof -
  have fits: "dispatch_fits rq" using unresolved by (auto simp: dispatch_fits_def)
  from stream_chat_valid [OF res k fits] obtain gen d'
    where sc: "stream_chat cs clk rq d = (EventStream gen, d')" by blast
  have absent: "chat_query_get (the (rq_chat_id rq)) d = Inr None" if "truthy (rq_chat_id rq)"
  proof -
    from that unresolved have r: "sqlite_integer (the (rq_chat_id rq))"
      and n: "the (rq_chat_id rq) \<notin> c_id ` set (chats d)" by auto
    from n have "\<forall>c\<in>set (chats d). c_id c \<noteq> the (rq_chat_id rq)" by force
    then have "find (\<lambda>c. c_id c = the (rq_chat_id rq)) (chats d) = None"
      by (simp add: find_None_iff)
    with r show ?thesis by (simp add: chat_query_get_def)
  qed
  from stream_chat_EventStream [OF sc] res
  have fp: "g_api_key gen = k"
      "g_full_prompt gen = full_prompt (get_str (rq_prompt rq)) (get_str (rq_message rq))"
    and ch: "case g_chat gen of
                 None \<Rightarrow> d' = d1 \<and> chats d' = chats d \<and> messages d' = messages d
                        \<and> (if truthy (rq_chat_id rq)
                            then chat_query_get (the (rq_chat_id rq)) d = Inr None
                            else \<not> truthy (rq_prompt_id rq))
               | Some c \<Rightarrow> messages d' = messages d @
                            [\<lparr>m_id = next_id (map m_id (messages d)), m_chat_id = c_id c,
                              m_role = ''user'', m_content = get_str (rq_message rq),
                              m_created_at = at_user_message clk\<rparr>]
                        \<and> (if truthy (rq_chat_id rq)
                            then chat_query_get (the (rq_chat_id rq)) d = Inr (Some c)
                               \<and> chats d' = chats d
                            else truthy (rq_prompt_id rq) \<and> chats d' = chats d @ [c]
                               \<and> c = \<lparr>c_id = next_id (map c_id (chats d)),
                                       c_prompt_id = the (rq_prompt_id rq),
                                       c_session_id = the (x_session_id rq),
                                       c_created_at = at_chat_created clk\<rparr>)"
    by auto
  have none: "g_chat gen = None"
    using ch unresolved absent by (cases "g_chat gen") (auto split: if_splits)
  with ch have same: "d' = d1" by simp
  note fr = resolve_frame [OF res]
  note ss = resolve_sessions [OF res]
  have used: "\<exists>s\<in>set (user_sessions d1).
                 Some (us_session_id s) = x_session_id rq \<and> us_last_used s = at_last_used clk"
  proof -
    from res obtain sid s0 where sid: "x_session_id rq = Some sid"
      and found: "find (\<lambda>s. us_session_id s = sid) (user_sessions d) = Some s0"
      and d1: "user_sessions d1 =
                 map (\<lambda>s. if us_id s = us_id s0 then s\<lparr>us_last_used := at_last_used clk\<rparr> else s)
                   (user_sessions d)"
      by (auto simp: get_api_key_from_session_def Let_def split: option.splits if_splits)
    from found have "s0 \<in> set (user_sessions d)" "us_session_id s0 = sid"
      by (auto simp: find_Some_iff)
    then have "s0\<lparr>us_last_used := at_last_used clk\<rparr> \<in> set (user_sessions d1)"
      unfolding d1 by force
    moreover have "Some (us_session_id (s0\<lparr>us_last_used := at_last_used clk\<rparr>)) = x_session_id rq"
      using sid \<open>us_session_id s0 = sid\<close> by simp
    moreover have "us_last_used (s0\<lparr>us_last_used := at_last_used clk\<rparr>) = at_last_used clk"
      by simp
    ultimately show ?thesis by blast
  qed
  have "generate g now gen d1 =
          (\<lparr>events = map sse (filter (\<lambda>t. t \<noteq> []) texts), raised = None\<rparr>, d1)"
    using none emits fp by (simp add: generate_def for_chunks_foldr)
  with sc same none fr ss used show ?thesis by blast
qed

theorem no_chat_resolved_streams_without_persisting_witness:
  "get_api_key_from_session demo_cipher (at_last_used demo_clock)
     (x_session_id \<lparr>x_session_id = Some ''tok'', rq_prompt = None, rq_message = Some ''hi'',
                     rq_prompt_id = None, rq_chat_id = Some 99\<rparr>) demo_db =
     (Some ''good-key'',
      demo_db\<lparr>user_sessions := [\<lparr>us_id = 1, us_session_id = ''tok'',
                                     us_encrypted_api_key = ''ggood-key'',
                                     us_created_at = 5, us_last_used = 10\<rparr>]\<rparr>)
   \<and> ''good-key'' \<noteq> []
   \<and> truthy (Some 99) \<and> sqlite_integer 99 \<and> 99 \<notin> c_id ` set (chats demo_db)
   \<and> generate_content_stream (demo_genai (Chunk ''Hel'' (Chunk ''lo'' StreamEnd)))
        ''good-key'' ''hi'' = foldr Chunk [''Hel'', ''lo''] StreamEnd
   \<and> (\<exists>gen. stream_chat demo_cipher demo_clock
               \<lparr>x_session_id = Some ''tok'', rq_prompt = None, rq_message = Some ''hi'',
                rq_prompt_id = None, rq_chat_id = Some 99\<rparr> demo_db =
               (EventStream gen,
                demo_db\<lparr>user_sessions := [\<lparr>us_id = 1, us_session_id = ''tok'',
                                     us_encrypted_api_key = ''ggood-key'',
                                     us_created_at = 5, us_last_used = 10\<rparr>]\<rparr>)
           \<and> g_chat gen = None
           \<and> generate (demo_genai (Chunk ''Hel'' (Chunk ''lo'' StreamEnd))) 13 gen
               (demo_db\<lparr>user_sessions := [\<lparr>us_id = 1, us_session_id = ''tok'',
                                     us_encrypted_api_key = ''ggood-key'',
                                     us_created_at = 5, us_last_used = 10\<rparr>]\<rparr>) =
               (\<lparr>events = [''data: Hel\<newline>\<newline>'', ''data: lo\<newline>\<newline>''], raised = None\<rparr>,
                demo_db\<lparr>user_sessions := [\<lparr>us_id = 1, us_session_id = ''tok'',
                                     us_encrypted_api_key = ''ggood-key'',
                                     us_created_at = 5, us_last_used = 10\<rparr>]\<rparr>))"
proof -
  let ?rq = "\<lparr>x_session_id = Some ''tok'', rq_prompt = None, rq_message = Some ''hi'',
              rq_prompt_id = None, rq_chat_id = Some 99\<rparr>"
  let ?d1 = "demo_db\<lparr>user_sessions := [\<lparr>us_id = 1, us_session_id = ''tok'',
                                   us_encrypted_api_key = ''ggood-key'',
                                   us_created_at = 5, us_last_used = 10\<rparr>]\<rparr>"
  let ?g = "demo_genai (Chunk ''Hel'' (Chunk ''lo'' StreamEnd))"
  have h1: "get_api_key_from_session demo_cipher (at_last_used demo_clock) (x_session_id ?rq)
              demo_db = (Some ''good-key'', ?d1)"
    using demo_resolve by simp
  have h2: "''good-key'' \<noteq> []" by simp
  have t: "truthy (Some 99)" by (simp add: truthy_def)
  have r: "sqlite_integer 99" by (simp add: sqlite_integer_def)
  have a: "99 \<notin> c_id ` set (chats demo_db)" by (simp add: demo_db_def)
  have h3: "(truthy (rq_chat_id ?rq) \<and> sqlite_integer (the (rq_chat_id ?rq))
               \<and> the (rq_chat_id ?rq) \<notin> c_id ` set (chats demo_db))
            \<or> (\<not> truthy (rq_chat_id ?rq) \<and> \<not> truthy (rq_prompt_id ?rq))"
    using t r a by simp
  have fp: "full_prompt (get_str (rq_prompt ?rq)) (get_str (rq_message ?rq)) = ''hi''"
    by (simp add: full_prompt_def get_str_def)
  have h4: "generate_content_stream ?g ''good-key''
              (full_prompt (get_str (rq_prompt ?rq)) (get_str (rq_message ?rq))) =
            foldr Chunk [''Hel'', ''lo''] StreamEnd"
    by (simp add: demo_genai_def)
  have h4': "generate_content_stream ?g ''good-key'' ''hi'' = foldr Chunk [''Hel'', ''lo''] StreamEnd"
    using h4 fp by simp
  from no_chat_resolved_streams_without_persisting [OF h1 h2 h3 h4, of 13]
  obtain gen where "stream_chat demo_cipher demo_clock ?rq demo_db = (EventStream gen, ?d1)"
    "g_chat gen = None"
    "generate ?g 13 gen ?d1 =
       (\<lparr>events = map sse (filter (\<lambda>t. t \<noteq> []) [''Hel'', ''lo'']), raised = None\<rparr>, ?d1)"
    by blast
  then have "\<exists>gen. stream_chat demo_cipher demo_clock ?rq demo_db = (EventStream gen, ?d1)
      \<and> g_chat gen = None
      \<and> generate ?g 13 gen ?d1 =
          (\<lparr>events = [''data: Hel\<newline>\<newline>'', ''data: lo\<newline>\<newline>''], raised = None\<rparr>, ?d1)"
    by (auto simp: sse_def)
  with h1 h2 t r a h4' show ?thesis by simp
qed

section \<open>Conversation store: the order of messages read back\<close>

lemma fold_max_ge: "(x::int) \<in> set ids \<Longrightarrow> x \<le> fold max ids a"
proof -
  assume "x \<in> set ids"
  then have "x \<le> Max (set (a # ids))" by (intro Max_ge) auto
  then show ?thesis by (simp only: Max.set_eq_fold)
qed

lemma next_id_greater: "x \<in> set ids \<Longrightarrow> x < next_id ids"
  using fold_max_ge [of x ids 0] by (simp add: next_id_def)

lemma in_order_mono: "messages_in_order t d \<Longrightarrow> t \<le> t' \<Longrightarrow> messages_in_order t' d"
  by (auto simp: messages_in_order_def)

lemma in_order_frame:
  "messages d' = messages d \<Longrightarrow> messages_in_order t d \<Longrightarrow> messages_in_order t d'"
  by (simp add: messages_in_order_def)

lemma in_order_append:
  assumes "messages_in_order t d" and "t \<le> now"
    and "messages d' = messages d @
           [\<lparr>m_id = next_id (map m_id (messages d)), m_chat_id = cid, m_role = role,
             m_content = content, m_created_at = now\<rparr>]"
  shows "messages_in_order now d'"
  using assms next_id_greater [of _ "map m_id (messages d)"]
  by (auto simp: messages_in_order_def sorted_append sorted_wrt_append)

lemma in_order_add_message:
  "messages_in_order t d \<Longrightarrow> t \<le> now \<Longrightarrow>
   messages_in_order now (add_message now cid role content d)"
  by (rule in_order_append [where d = d]) (simp_all add: add_message_def)

lemma in_order_filter:
  assumes "messages_in_order t d" and "messages d' = filter P (messages d)"
  shows "messages_in_order t d'"
proof -
  have "sorted (map m_created_at (filter P (messages d)))"
    using assms(1) by (simp add: messages_in_order_def sorted_filter)
  moreover have "sorted_wrt (<) (map m_id (filter P (messages d)))"
    using assms(1) by (simp add: messages_in_order_def sorted_wrt_map sorted_wrt_filter)
  ultimately show ?thesis using assms by (simp add: messages_in_order_def)
qed

lemma in_order_stream_chat:
  assumes "messages_in_order t d" and "t \<le> at_user_message clk"
  shows "messages_in_order (at_user_message clk) (snd (stream_chat cs clk rq d))"
proof (cases "stream_chat cs clk rq d")
  case (Pair r d')
  have same: "messages_in_order (at_user_message clk) d'" if "messages d' = messages d"
    using in_order_frame [OF that in_order_mono [OF assms]] .
  have "messages_in_order (at_user_message clk) d'"
  proof (cases "\<exists>gen. r = EventStream gen")
    case False
    with Pair have "messages d' = messages d"
      using stream_chat_no_stream by blast
    then show ?thesis by (rule same)
  next
    case True
    then obtain gen where "r = EventStream gen" by blast
    with Pair have sc: "stream_chat cs clk rq d = (EventStream gen, d')" by simp
    show ?thesis
    proof (cases "g_chat gen")
      case None
      with stream_chat_EventStream [OF sc] have "messages d' = messages d" by auto
      then show ?thesis by (rule same)
    next
      case (Some c)
      with stream_chat_EventStream [OF sc]
      have "messages d' = messages d @
              [\<lparr>m_id = next_id (map m_id (messages d)), m_chat_id = c_id c, m_role = ''user'',
                m_content = get_str (rq_message rq), m_created_at = at_user_message clk\<rparr>]"
        by auto
      from in_order_append [OF assms this] show ?thesis .
    qed
  qed
  with Pair show ?thesis by simp
qed

lemma generate_messages:
  "messages (snd (generate g now gen d)) = messages d
   \<or> (\<exists>cid content. snd (generate g now gen d) = add_message now cid ''assistant'' content d)"
  by (auto simp: generate_def Let_def split: prod.splits sum.splits option.splits)

lemma in_order_generate:
  assumes "messages_in_order t d" and "t \<le> now"
  shows "messages_in_order now (snd (generate g now gen d))"
  using generate_messages [of g now gen d]
proof
  assume "messages (snd (generate g now gen d)) = messages d"
  from in_order_frame [OF this in_order_mono [OF assms]] show ?thesis .
next
  assume "\<exists>cid content. snd (generate g now gen d) = add_message now cid ''assistant'' content d"
  then obtain cid content
    where "snd (generate g now gen d) = add_message now cid ''assistant'' content d" by blast
  with in_order_add_message [OF assms] show ?thesis by simp
qed

lemma in_order_step:
  assumes inv: "messages_in_order t d" and clock: "sorted (t # clock_readings a)"
  shows "messages_in_order (last (t # clock_readings a)) (step cs g a d)"
proof (cases a)
  case (CreatePrompt t1 t2 title content category)
  have m: "messages (step cs g a d) = messages d"
    by (simp add: CreatePrompt create_prompt_def Let_def split: option.splits)
  have "t \<le> t2" using clock CreatePrompt by simp
  from in_order_frame [OF m in_order_mono [OF inv this]] show ?thesis
    by (simp add: CreatePrompt)
next
  case (DeletePrompt pid)
  have "\<exists>P. messages (step cs g a d) = filter P (messages d)"
  proof (cases "sqlite_integer pid \<and> find (\<lambda>p. p_id p = pid) (prompts d) \<noteq> None")
    case False
    then have "messages (step cs g a d) = filter (\<lambda>_. True) (messages d)"
      by (auto simp: DeletePrompt delete_prompt_def)
    then show ?thesis by blast
  next
    case True
    then show ?thesis by (auto simp: DeletePrompt delete_prompt_def Let_def)
  qed
  then obtain P where "messages (step cs g a d) = filter P (messages d)" by blast
  from in_order_filter [OF inv this] show ?thesis by (simp add: DeletePrompt)
next
  case (UpdateApiKey ie token t1 t2 api_key)
  have m: "messages (step cs g a d) = messages d"
    by (simp add: UpdateApiKey update_api_key_def Let_def split: option.splits sum.splits)
  have "t \<le> t2" using clock UpdateApiKey by simp
  from in_order_frame [OF m in_order_mono [OF inv this]] show ?thesis
    by (simp add: UpdateApiKey)
next
  case (StreamChat clk rq)
  have "t \<le> at_user_message clk" using clock StreamChat by simp
  from in_order_stream_chat [OF inv this] show ?thesis by (simp add: StreamChat)
next
  case (Generate now gen)
  have "t \<le> now" using clock Generate by simp
  from in_order_generate [OF inv this] show ?thesis by (simp add: Generate)
qed

lemma sorted_last_Cons:
  "sorted (x # xs @ ys) \<Longrightarrow> sorted (last (x # xs) # ys)"
  by (induction xs arbitrary: x) auto

lemma in_order_run:
  "messages_in_order t d \<Longrightarrow> sorted (t # concat (map clock_readings acts)) \<Longrightarrow>
   \<exists>t'. messages_in_order t' (run cs g acts d)"
proof (induction acts arbitrary: t d)
  case Nil
  then show ?case by (auto simp: run_def)
next
  case (Cons a acts)
  from Cons.prems(2) have s: "sorted (t # clock_readings a @ concat (map clock_readings acts))"
    by simp
  then have "sorted ((t # clock_readings a) @ concat (map clock_readings acts))" by simp
  then have s1: "sorted (t # clock_readings a)" by (simp only: sorted_append)
  from sorted_last_Cons [OF s]
  have s2: "sorted (last (t # clock_readings a) # concat (map clock_readings acts))" .
  from Cons.IH [OF in_order_step [OF Cons.prems(1) s1] s2]
  show ?case by (simp add: run_def)
qed

lemma demo_run:
  "run demo_cipher (demo_genai (Chunk ''Hel'' (Chunk ''lo'' StreamEnd))) demo_history empty_db =
     \<lparr>user_sessions = [\<lparr>us_id = 1, us_session_id = ''tok'',
                          us_encrypted_api_key = ''ggood-key'',
                          us_created_at = 1, us_last_used = 3\<rparr>],
      prompts = [],
      chats = [\<lparr>c_id = 1, c_prompt_id = 1, c_session_id = ''tok'', c_created_at = 4\<rparr>],
      messages = [\<lparr>m_id = 1, m_chat_id = 1, m_role = ''user'', m_content = ''hi'',
                    m_created_at = 5\<rparr>,
                  \<lparr>m_id = 2, m_chat_id = 1, m_role = ''assistant'', m_content = ''Hello'',
                    m_created_at = 6\<rparr>]\<rparr>"
  by (simp add: run_def demo_history_def empty_db_def update_api_key_def demo_genai_def
        stream_chat_def get_api_key_from_session_def demo_cipher_def get_str_def truthy_def
        full_prompt_def add_chat_def add_message_def chat_query_get_def sqlite_integer_def
        next_id_def generate_def sse_def Let_def)

text \<open>
  Claim C9. After any history of requests, started on the empty store, whose successive
  clock readings do not decrease, every chat that \<open>get_chats\<close> returns carries exactly the
  rows of the message table that belong to it, in the order of the table, which is the order
  in which they were appended: their creation times do not decrease and their keys
  increase, oldest first.
\<close>

theorem messages_read_back_oldest_first:
  assumes clock: "sorted (concat (map clock_readings acts))"
    and read: "get_chats pid (run cs g acts empty_db) = Inr cds"
    and chat: "cd \<in> set cds"
  shows "cd_messages cd =
           map message_to_dict
             (filter (\<lambda>m. m_chat_id m = cd_id cd) (messages (run cs g acts empty_db)))
         \<and> sorted (map md_created_at (cd_messages cd))
         \<and> sorted_wrt (<) (map md_id (cd_messages cd))"
proof -
  let ?d = "run cs g acts empty_db"
  have "messages_in_order 0 empty_db" by (simp add: messages_in_order_def empty_db_def)
  moreover have "sorted (0 # concat (map clock_readings acts))" using clock by simp
  ultimately obtain t where inv: "messages_in_order t ?d"
    using in_order_run by blast
  from read chat obtain c where cd: "cd = chat_to_dict ?d c"
    by (auto simp: get_chats_def split: if_splits)
  have eq: "cd_messages cd = map message_to_dict (filter (\<lambda>m. m_chat_id m = cd_id cd) (messages ?d))"
    by (simp add: cd chat_to_dict_def chat_messages_def)
  have m1: "map md_created_at (map message_to_dict xs) = map m_created_at xs" for xs
    by (simp add: message_to_dict_def)
  have m2: "map md_id (map message_to_dict xs) = map m_id xs" for xs
    by (simp add: message_to_dict_def)
  from inv have "sorted (map m_created_at (filter (\<lambda>m. m_chat_id m = cd_id cd) (messages ?d)))"
    by (simp add: messages_in_order_def sorted_filter)
  moreover from inv
  have "sorted_wrt (<) (map m_id (filter (\<lambda>m. m_chat_id m = cd_id cd) (messages ?d)))"
    by (simp add: messages_in_order_def sorted_wrt_map sorted_wrt_filter)
  ultimately show ?thesis using eq by (simp only: m1 m2)
qed

theorem messages_read_back_oldest_first_witness:
  "sorted (concat (map clock_readings demo_history))
   \<and> get_chats 1 (run demo_cipher (demo_genai (Chunk ''Hel'' (Chunk ''lo'' StreamEnd)))
        demo_history empty_db) =
       Inr [\<lparr>cd_id = 1, cd_prompt_id = 1, cd_created_at = 4,
             cd_messages = [\<lparr>md_id = 1, md_role = ''user'', md_content = ''hi'',
                              md_created_at = 5\<rparr>,
                            \<lparr>md_id = 2, md_role = ''assistant'', md_content = ''Hello'',
                              md_created_at = 6\<rparr>]\<rparr>]
   \<and> sorted [5, 6 :: nat] \<and> sorted_wrt (<) [1, 2 :: int]"
proof -
  let ?cd = "\<lparr>cd_id = 1, cd_prompt_id = 1, cd_created_at = 4,
       cd_messages = [\<lparr>md_id = 1, md_role = ''user'', md_content = ''hi'', md_created_at = 5\<rparr>,
                      \<lparr>md_id = 2, md_role = ''assistant'', md_content = ''Hello'',
                        md_created_at = 6\<rparr>]\<rparr>"
  have h1: "sorted (concat (map clock_readings demo_history))"
    by (simp add: demo_history_def)
  have h2: "get_chats 1 (run demo_cipher (demo_genai (Chunk ''Hel'' (Chunk ''lo'' StreamEnd)))
              demo_history empty_db) = Inr [?cd]"
    by (simp add: demo_run get_chats_def sqlite_integer_def chat_to_dict_def chat_messages_def
          message_to_dict_def)
  have h3: "?cd \<in> set [?cd]" by simp
  show ?thesis
    using h1 h2 messages_read_back_oldest_first [OF h1 h2 h3]
    by simp
qed

end
